theory Spec2Isabelle
  imports Main
begin

section \<open>JavaScript values\<close>

text \<open>
  The client of \<^verbatim>\<open>src/index.js\<close> takes and returns plain JavaScript data. A value is
  one of the cases below. Strings are byte strings (their UTF-8 encoding), which is what
  \<^verbatim>\<open>crypto\<close> hashes and what \<^verbatim>\<open>Buffer.byteLength\<close> counts. \<open>JNum n\<close> is a Number with
  the integer value \<open>n\<close>, meant for the safe integers (\<open>\<bar>n\<bar> < 2 ^ 53\<close>) that status codes,
  error codes and timestamps are; fractions are not represented. \<open>JObj ps\<close> lists the own
  enumerable properties in enumeration order; \<open>JFun src\<close> is a function with source text
  \<open>src\<close>.
\<close>

datatype jsval =
    JUndefined
  | JNull
  | JBool bool
  | JNum int
  | JStr string
  | JArr "jsval list"
  | JObj "(string \<times> jsval) list"
  | JFun string

text \<open>ToBoolean, the test behind \<^verbatim>\<open>if (x)\<close>, \<^verbatim>\<open>!x\<close> and \<^verbatim>\<open>x || y\<close>.\<close>

fun truthy :: "jsval \<Rightarrow> bool" where
  "truthy JUndefined = False"
| "truthy JNull = False"
| "truthy (JBool b) = b"
| "truthy (JNum n) = (n \<noteq> 0)"
| "truthy (JStr s) = (s \<noteq> [])"
| "truthy (JArr xs) = True"
| "truthy (JObj ps) = True"
| "truthy (JFun src) = True"

text \<open>
  underscore's \<^verbatim>\<open>_.isObject\<close>:
  \<^verbatim>\<open>var type = typeof obj; return type === 'function' || type === 'object' && !!obj;\<close>
  (\<^verbatim>\<open>typeof null\<close> is \<^verbatim>\<open>'object'\<close>, and \<^verbatim>\<open>!!null\<close> is false).
\<close>

fun isObject :: "jsval \<Rightarrow> bool" where
  "isObject (JFun src) = True"
| "isObject (JArr xs) = True"
| "isObject (JObj ps) = True"
| "isObject v = False"

subsection \<open>Numbers as decimal strings\<close>

definition digit :: "nat \<Rightarrow> char" where
  "digit d = ''0123456789'' ! d"

fun show_nat :: "nat \<Rightarrow> string" where
  "show_nat n = (if n < 10 then [digit n] else show_nat (n div 10) @ [digit (n mod 10)])"

declare show_nat.simps [simp del]

text \<open>Number::toString on an integer: a minus sign, then the decimal digits.\<close>

definition show_int :: "int \<Rightarrow> string" where
  "show_int i = (if i < 0 then CHR ''-'' # show_nat (nat (- i)) else show_nat (nat i))"

text \<open>Array.prototype.join on strings.\<close>

fun join :: "string \<Rightarrow> string list \<Rightarrow> string" where
  "join sep [] = []"
| "join sep [s] = s"
| "join sep (s # t # ss) = s @ sep @ join sep (t # ss)"

subsection \<open>ToString\<close>

text \<open>
  ToString, as a template literal \<^verbatim>\<open>`${v}`\<close>, a property key \<^verbatim>\<open>o[v]\<close> and
  \<^verbatim>\<open>new Error(v)\<close> apply it. An array joins its elements with a comma, \<^verbatim>\<open>null\<close> and
  \<^verbatim>\<open>undefined\<close> elements giving the empty string. An object converts by the default
  \<^verbatim>\<open>Object.prototype.toString\<close>, as decoded JSON does unless it has a property named
  \<^verbatim>\<open>toString\<close> or \<^verbatim>\<open>valueOf\<close> of its own.
\<close>

fun toString_js :: "jsval \<Rightarrow> string"
  and toString_elems :: "jsval list \<Rightarrow> string list" where
  "toString_js JUndefined = ''undefined''"
| "toString_js JNull = ''null''"
| "toString_js (JBool b) = (if b then ''true'' else ''false'')"
| "toString_js (JNum n) = show_int n"
| "toString_js (JStr s) = s"
| "toString_js (JArr xs) = join '','' (toString_elems xs)"
| "toString_js (JObj ps) = ''[object Object]''"
| "toString_js (JFun src) = src"
| "toString_elems [] = []"
| "toString_elems (JUndefined # xs) = [] # toString_elems xs"
| "toString_elems (JNull # xs) = [] # toString_elems xs"
| "toString_elems (x # xs) = toString_js x # toString_elems xs"

subsection \<open>Own properties\<close>

text \<open>
  underscore's \<^verbatim>\<open>_.has(obj, key)\<close>:
  \<^verbatim>\<open>return obj != null && hasOwnProperty.call(obj, key);\<close>
  An array or a string owns its indices and \<^verbatim>\<open>length\<close> (a string's indices are
  counted on its bytes here). Function values never reach this test in the client: the
  transport delivers strings and decoded JSON.
\<close>

definition is_index :: "string \<Rightarrow> nat \<Rightarrow> bool" where
  "is_index k n = (k \<in> set (map show_nat [0..<n]))"

fun has :: "jsval \<Rightarrow> string \<Rightarrow> bool" where
  "has (JObj ps) k = (k \<in> set (map fst ps))"
| "has (JArr xs) k = (k = ''length'' \<or> is_index k (length xs))"
| "has (JStr s) k = (k = ''length'' \<or> is_index k (length s))"
| "has v k = False"

text \<open>
  A property read \<^verbatim>\<open>o.k\<close> of an object: the own property, else \<^verbatim>\<open>undefined\<close>. The
  client reads \<^verbatim>\<open>error_code\<close>, \<^verbatim>\<open>Error\<close> and \<^verbatim>\<open>Data\<close>, none of which a prototype of
  Object or Array supplies, and it reads them only from values that passed \<^verbatim>\<open>_.has\<close>
  or \<^verbatim>\<open>_.isObject\<close>, so never from \<^verbatim>\<open>null\<close> or \<^verbatim>\<open>undefined\<close>.
\<close>

fun get :: "jsval \<Rightarrow> string \<Rightarrow> jsval" where
  "get (JObj ps) k = (case map_of ps k of Some v \<Rightarrow> v | None \<Rightarrow> JUndefined)"
| "get v k = JUndefined"

subsection \<open>JSON.stringify\<close>

definition hex_lower :: "nat \<Rightarrow> char" where
  "hex_lower d = ''0123456789abcdef'' ! d"

definition hex_upper :: "nat \<Rightarrow> char" where
  "hex_upper d = ''0123456789ABCDEF'' ! d"

text \<open>QuoteJSONString: the escapes of one character.\<close>

definition quote_char :: "char \<Rightarrow> string" where
  "quote_char c =
     (let n = (of_char c :: nat) in
      if n = 34 then [CHR 0x5C, CHR 0x22]
      else if n = 92 then [CHR 0x5C, CHR 0x5C]
      else if n = 8 then [CHR 0x5C, CHR ''b'']
      else if n = 12 then [CHR 0x5C, CHR ''f'']
      else if n = 10 then [CHR 0x5C, CHR ''n'']
      else if n = 13 then [CHR 0x5C, CHR ''r'']
      else if n = 9 then [CHR 0x5C, CHR ''t'']
      else if n < 32 then
        [CHR 0x5C, CHR ''u'', CHR ''0'', CHR ''0'', hex_lower (n div 16), hex_lower (n mod 16)]
      else [c])"

definition quote :: "string \<Rightarrow> string" where
  "quote s = CHR 0x22 # concat (map quote_char s) @ [CHR 0x22]"

text \<open>
  \<^verbatim>\<open>JSON.stringify(v)\<close>. \<open>None\<close> is the result \<^verbatim>\<open>undefined\<close>, which \<^verbatim>\<open>undefined\<close> and
  functions serialize to; inside an array they become \<^verbatim>\<open>null\<close>, and a property holding
  one is left out.
\<close>

fun stringify :: "jsval \<Rightarrow> string option"
  and stringify_elems :: "jsval list \<Rightarrow> string list"
  and stringify_props :: "(string \<times> jsval) list \<Rightarrow> string list" where
  "stringify JUndefined = None"
| "stringify (JFun src) = None"
| "stringify JNull = Some ''null''"
| "stringify (JBool b) = Some (if b then ''true'' else ''false'')"
| "stringify (JNum n) = Some (show_int n)"
| "stringify (JStr s) = Some (quote s)"
| "stringify (JArr xs) = Some (''['' @ join '','' (stringify_elems xs) @ '']'')"
| "stringify (JObj ps) = Some (''{'' @ join '','' (stringify_props ps) @ ''}'')"
| "stringify_elems [] = []"
| "stringify_elems (x # xs) =
     (case stringify x of None \<Rightarrow> ''null'' | Some s \<Rightarrow> s) # stringify_elems xs"
| "stringify_props [] = []"
| "stringify_props ((k, v) # ps) =
     (case stringify v of
        None \<Rightarrow> stringify_props ps
      | Some s \<Rightarrow> (quote k @ '':'' @ s) # stringify_props ps)"

subsection \<open>encodeURIComponent and toLowerCase\<close>

text \<open>
  \<^verbatim>\<open>encodeURIComponent\<close> keeps the unreserved characters
  \<^verbatim>\<open>A-Z a-z 0-9 - _ . ! ~ * ' ( )\<close> and writes every other byte of the UTF-8 encoding as
  \<^verbatim>\<open>%XX\<close> with upper-case hexadecimal digits.
\<close>

definition unreserved :: "char \<Rightarrow> bool" where
  "unreserved c =
     (let n = (of_char c :: nat) in
      (65 \<le> n \<and> n \<le> 90) \<or> (97 \<le> n \<and> n \<le> 122) \<or> (48 \<le> n \<and> n \<le> 57) \<or>
      n \<in> {45, 95, 46, 33, 126, 42, 39, 40, 41})"

definition encode_char :: "char \<Rightarrow> string" where
  "encode_char c =
     (if unreserved c then [c]
      else [CHR ''%'', hex_upper (of_char c div 16), hex_upper (of_char c mod 16)])"

definition encodeURIComponent :: "string \<Rightarrow> string" where
  "encodeURIComponent s = concat (map encode_char s)"

text \<open>
  \<^verbatim>\<open>String.prototype.toLowerCase\<close> on ASCII text, which every result of
  \<^verbatim>\<open>encodeURIComponent\<close> is: the letters \<^verbatim>\<open>A-Z\<close> move to \<^verbatim>\<open>a-z\<close>.
\<close>

definition lower_char :: "char \<Rightarrow> char" where
  "lower_char c =
     (case map_of (zip ''ABCDEFGHIJKLMNOPQRSTUVWXYZ'' ''abcdefghijklmnopqrstuvwxyz'') c of
        Some l \<Rightarrow> l
      | None \<Rightarrow> c)"

definition toLowerCase :: "string \<Rightarrow> string" where
  "toLowerCase s = map lower_char s"

section \<open>The client\<close>

subsection \<open>Request descriptors, replies and errors\<close>

text \<open>
  The \<^verbatim>\<open>options\<close> object handed to \<^verbatim>\<open>request\<close>. A field that the object literal does
  not set is \<open>None\<close>. \<open>http_method\<close> is the field \<^verbatim>\<open>method\<close> and \<open>req_timeout\<close> the
  field \<^verbatim>\<open>timeout\<close>.
\<close>

record options =
  url :: string
  http_method :: string
  headers :: "(string \<times> jsval) list option"
  form :: "string option"
  req_timeout :: "int option"
  qs :: "jsval option"
  json :: "jsval option"

text \<open>
  What \<^verbatim>\<open>request\<close> does with its callback: it never calls it, it calls
  \<^verbatim>\<open>callback(err)\<close> with an error object, or it calls
  \<^verbatim>\<open>callback(null, response, data)\<close> where \<open>Responded status data\<close> holds
  \<^verbatim>\<open>response.statusCode\<close> and the body.
\<close>

datatype reply =
    NoReply
  | Failed jsval
  | Responded int jsval

text \<open>
  The errors the client builds, one constructor per construction site, holding the
  arguments given there:
  \<^item> \<open>MissingCredentialsError functionName\<close> (line 30);
  \<^item> \<open>InvalidParameterError functionName params\<close> (lines 34 and 65);
  \<^item> \<open>TransportError err requestDesc\<close> (line 239), whose name is \<^verbatim>\<open>err.code\<close>;
  \<^item> \<open>HttpStatusError statusCode requestDesc\<close> (lines 242 to 244);
  \<^item> \<open>ResponseDecodeError data\<close> (line 250), \<^verbatim>\<open>JSON.parse\<close> having thrown;
  \<^item> \<open>ResponseNotObjectError requestDesc data\<close> (line 255);
  \<^item> \<open>RemoteApiError error_code errorMessage requestDesc\<close> (lines 261 to 264);
  \<^item> \<open>GenericError message\<close>, the \<^verbatim>\<open>new Error(resp.Error)\<close> of line 83.
\<close>

datatype error =
    MissingCredentialsError string
  | InvalidParameterError string jsval
  | TransportError jsval string
  | HttpStatusError int string
  | ResponseDecodeError jsval
  | ResponseNotObjectError string jsval
  | RemoteApiError jsval string string
  | GenericError string

text \<open>
  What a call of the client comes to: a promise that is fulfilled, rejected or never
  settled, or an exception thrown before a promise exists.
\<close>

datatype outcome =
    Resolved jsval
  | Rejected error
  | Pending
  | Threw string

subsection \<open>The environment\<close>

text \<open>
  What the client takes from its platform: the clock (\<^verbatim>\<open>new Date().getTime()\<close>, in
  milliseconds), the \<^verbatim>\<open>request\<close> transport, \<^verbatim>\<open>JSON.parse\<close> (\<open>None\<close> when it
  throws), and of \<^verbatim>\<open>crypto\<close> and \<^verbatim>\<open>Buffer\<close> the MD5 digest, HMAC-SHA256 (key first),
  base64 encoding and base64 decoding, all on byte strings.
\<close>

record env =
  now :: int
  request :: "options \<Rightarrow> reply"
  JSON_parse :: "string \<Rightarrow> jsval option"
  md5 :: "string \<Rightarrow> string"
  hmac_sha256 :: "string \<Rightarrow> string \<Rightarrow> string"
  base64 :: "string \<Rightarrow> string"
  from_base64 :: "string \<Rightarrow> string"

subsection \<open>Construction\<close>

record Cryptopia =
  key :: "string option"
  secret :: "string option"
  hostname :: string
  server :: string
  publicApiPath :: string
  privateApiPath :: string
  timeout :: int

text \<open>
  \<^verbatim>\<open>new Cryptopia(key, secret, hostname, timeout)\<close>; an argument left out is \<open>None\<close>.
  \<^verbatim>\<open>hostname || d\<close> takes \<open>d\<close> for a missing or empty host name, and
  \<^verbatim>\<open>timeout || 20000\<close> takes 20000 for a missing or zero timeout.
\<close>

definition new_Cryptopia ::
  "string option \<Rightarrow> string option \<Rightarrow> string option \<Rightarrow> int option \<Rightarrow> Cryptopia" where
  "new_Cryptopia k s h t =
     (let host = (case h of None \<Rightarrow> ''www.cryptopia.co.nz''
                  | Some x \<Rightarrow> if x \<noteq> [] then x else ''www.cryptopia.co.nz'')
      in \<lparr> key = k, secret = s, hostname = host, server = ''https://'' @ host,
           publicApiPath = ''api'', privateApiPath = ''api'',
           timeout = (case t of None \<Rightarrow> 20000 | Some x \<Rightarrow> if x \<noteq> 0 then x else 20000) \<rparr>)"

text \<open>\<^verbatim>\<open>!this.key\<close>: the key is missing or the empty string.\<close>

fun falsy_str :: "string option \<Rightarrow> bool" where
  "falsy_str None = True"
| "falsy_str (Some s) = (s = [])"

subsection \<open>The error-code table\<close>

definition ERROR_CODES :: "(int \<times> string) list" where
  "ERROR_CODES =
    [(10000, ''Required parameter can not be null''),
     (10001, ''Requests are too frequent''),
     (10002, ''System Error''),
     (10003, ''Restricted list request, please try again later''),
     (10004, ''IP restriction''),
     (10005, ''Key does not exist''),
     (10006, ''User does not exist''),
     (10007, ''Signatures do not match''),
     (10008, ''Illegal parameter''),
     (10009, ''Order does not exist''),
     (10010, ''Insufficient balance''),
     (10011, ''Order is less than minimum trade amount''),
     (10012, ''Unsupported symbol (not btc_usd or ltc_usd)''),
     (10013, ''This interface only accepts https requests''),
     (10014, ''Order price must be between 0 and 1,000,000''),
     (10015, ''Order price differs from current market price too much''),
     (10016, ''Insufficient coins balance''),
     (10017, ''API authorization error''),
     (10026, ''Loan (including reserved loan) and margin cannot be withdrawn''),
     (10027, ''Cannot withdraw within 24 hrs of authentication information modification''),
     (10028, ''Withdrawal amount exceeds daily limit''),
     (10029, ''Account has unpaid loan, please cancel/pay off the loan before withdraw''),
     (10031, ''Deposits can only be withdrawn after 6 confirmations''),
     (10032, ''Please enabled phone/google authenticator''),
     (10033, ''Fee higher than maximum network transaction fee''),
     (10034, ''Fee lower than minimum network transaction fee''),
     (10035, ''Insufficient BTC/LTC''),
     (10036, ''Withdrawal amount too low''),
     (10037, ''Trade password not set''),
     (10040, ''Withdrawal cancellation fails''),
     (10041, ''Withdrawal address not approved''),
     (10042, ''Admin password error''),
     (10100, ''User account frozen''),
     (10216, ''Non-available API''),
     (503, ''Too many requests (Http)'')]"

text \<open>
  \<^verbatim>\<open>ERROR_CODES[error_code]\<close>: the table's keys are property names, the decimal strings
  of the codes, and the index is converted by ToString. (An index naming a member of
  \<^verbatim>\<open>Object.prototype\<close>, such as \<^verbatim>\<open>'constructor'\<close>, is not modelled.)
\<close>

definition error_codes_at :: "jsval \<Rightarrow> string option" where
  "error_codes_at c = map_of (map (\<lambda>(k, m). (show_int k, m)) ERROR_CODES) (toString_js c)"

definition mapErrorMessage :: "jsval \<Rightarrow> string" where
  "mapErrorMessage error_code =
     (case error_codes_at error_code of
        None \<Rightarrow> ''Unknown Cryptopia error code: '' @ toString_js error_code
      | Some m \<Rightarrow>
          if m = [] then ''Unknown Cryptopia error code: '' @ toString_js error_code else m)"

subsection \<open>executeRequest\<close>

text \<open>
  The callback keeps two variables, \<^verbatim>\<open>error\<close> (unset at first) and
  \<^verbatim>\<open>returnObject\<close> (the data at first); a pair holds them. \<open>response_checks\<close> is the
  chain of lines 241 to 256 on a response; \<^verbatim>\<open>JSON.parse(data)\<close> converts its argument
  by ToString.
\<close>

definition response_checks ::
  "env \<Rightarrow> options \<Rightarrow> string \<Rightarrow> int \<Rightarrow> jsval \<Rightarrow> error option \<times> jsval" where
  "response_checks e opts requestDesc statusCode data =
     (if statusCode < 200 \<or> statusCode \<ge> 300 then
        (Some (HttpStatusError statusCode requestDesc), data)
      else if (case form opts of None \<Rightarrow> False | Some f \<Rightarrow> f \<noteq> []) then
        (case JSON_parse e (toString_js data) of
           Some v \<Rightarrow> (None, v)
         | None \<Rightarrow> (Some (ResponseDecodeError data), data))
      else if (case json opts of None \<Rightarrow> False | Some j \<Rightarrow> truthy j) \<and> \<not> isObject data then
        (Some (ResponseNotObjectError requestDesc data), data)
      else (None, data))"

text \<open>Lines 258 to 265: an own \<^verbatim>\<open>error_code\<close> of \<^verbatim>\<open>returnObject\<close> sets the error anew.\<close>

definition error_code_check :: "string \<Rightarrow> error option \<times> jsval \<Rightarrow> error option \<times> jsval" where
  "error_code_check requestDesc st =
     (let returnObject = snd st in
      if has returnObject ''error_code'' then
        (Some (RemoteApiError (get returnObject ''error_code'')
                 (mapErrorMessage (get returnObject ''error_code'')) requestDesc),
         returnObject)
      else st)"

text \<open>Lines 267 to 271.\<close>

definition settle :: "error option \<times> jsval \<Rightarrow> outcome" where
  "settle st = (case fst st of Some err \<Rightarrow> Rejected err | None \<Rightarrow> Resolved (snd st))"

text \<open>
  \<^verbatim>\<open>executeRequest(options, requestDesc)\<close>: the promise's fate, and the descriptors
  handed to the transport, in order. After \<^verbatim>\<open>callback(err)\<close> (line 238) the data is
  \<^verbatim>\<open>undefined\<close>.
\<close>

definition executeRequest :: "env \<Rightarrow> options \<Rightarrow> string \<Rightarrow> outcome \<times> options list" where
  "executeRequest e opts requestDesc =
     (case request e opts of
        NoReply \<Rightarrow> (Pending, [opts])
      | Failed err \<Rightarrow>
          (settle (error_code_check requestDesc
             (Some (TransportError err requestDesc), JUndefined)), [opts])
      | Responded statusCode data \<Rightarrow>
          (settle (error_code_check requestDesc
             (response_checks e opts requestDesc statusCode data)), [opts]))"

subsection \<open>privateRequest\<close>

text \<open>Line 38: \<^verbatim>\<open>Math.floor(new Date().getTime() / 1000)\<close>.\<close>

definition nonce_of :: "env \<Rightarrow> int" where
  "nonce_of e = now e div 1000"

text \<open>Line 37, on the serialized parameters.\<close>

definition md5_digest :: "env \<Rightarrow> string \<Rightarrow> string" where
  "md5_digest e body = base64 e (md5 e body)"

text \<open>Line 40, the string that is signed.\<close>

definition signature :: "string \<Rightarrow> string \<Rightarrow> int \<Rightarrow> string \<Rightarrow> string" where
  "signature k u nonce digest =
     k @ ''POST'' @ toLowerCase (encodeURIComponent u) @ show_int nonce @ digest"

text \<open>Line 41.\<close>

definition hmacSignature :: "env \<Rightarrow> string \<Rightarrow> string \<Rightarrow> string" where
  "hmacSignature e sec sig = base64 e (hmac_sha256 e (from_base64 e sec) sig)"

text \<open>Line 39.\<close>

definition private_url :: "Cryptopia \<Rightarrow> string \<Rightarrow> string" where
  "private_url c meth = server c @ ''/'' @ privateApiPath c @ ''/'' @ meth"

text \<open>
  Lines 37 to 41 together, for a key \<open>k\<close>, a secret \<open>sec\<close> and the serialized
  parameters \<open>body\<close>: the value of \<^verbatim>\<open>hmacSignature\<close>.
\<close>

definition private_signature ::
  "env \<Rightarrow> Cryptopia \<Rightarrow> string \<Rightarrow> string \<Rightarrow> string \<Rightarrow> string \<Rightarrow> string" where
  "private_signature e c k sec meth body =
     hmacSignature e sec (signature k (private_url c meth) (nonce_of e) (md5_digest e body))"

text \<open>Lines 43 to 54.\<close>

definition private_options ::
  "env \<Rightarrow> Cryptopia \<Rightarrow> string \<Rightarrow> string \<Rightarrow> string \<Rightarrow> string \<Rightarrow> options" where
  "private_options e c k sec meth body =
     \<lparr> url = private_url c meth, http_method = ''POST'',
       headers = Some
         [(''Authorization'',
             JStr (''amx '' @ k @ '':'' @ private_signature e c k sec meth body @ '':''
                   @ show_int (nonce_of e))),
          (''Content-Type'', JStr ''application/json; charset=utf-8''),
          (''Content-Length'', JNum (int (length body))),
          (''User-Agent'', JStr ''nodejs-7.5-api-client'')],
       form = Some body, req_timeout = None, qs = None, json = None \<rparr>"

text \<open>
  \<^verbatim>\<open>privateRequest(method, params)\<close>. When \<^verbatim>\<open>JSON.stringify(params)\<close> is
  \<^verbatim>\<open>undefined\<close> (a function), \<^verbatim>\<open>update\<close> of line 37 throws a TypeError.
\<close>

definition privateRequest :: "env \<Rightarrow> Cryptopia \<Rightarrow> string \<Rightarrow> jsval \<Rightarrow> outcome \<times> options list" where
  "privateRequest e c meth params =
     (if falsy_str (key c) \<or> falsy_str (secret c) then
        (Rejected (MissingCredentialsError ''Cryptopia.privateRequest()''), [])
      else if \<not> isObject params then
        (Rejected (InvalidParameterError ''Cryptopia.privateRequest()'' params), [])
      else
        (case stringify params of
           None \<Rightarrow> (Threw ''TypeError'', [])
         | Some body \<Rightarrow>
             let opts = private_options e c (the (key c)) (the (secret c)) meth body;
                 requestDesc = ''POST request to url '' @ url opts @ '' with method '' @ meth
                               @ '' and params '' @ body
             in executeRequest e opts requestDesc))"

subsection \<open>publicRequest\<close>

text \<open>\<^verbatim>\<open>util.format('%s', JSON.stringify(params))\<close>.\<close>

definition format_json :: "jsval \<Rightarrow> string" where
  "format_json v = (case stringify v of None \<Rightarrow> ''undefined'' | Some s \<Rightarrow> s)"

definition public_options :: "Cryptopia \<Rightarrow> string \<Rightarrow> jsval \<Rightarrow> options" where
  "public_options c meth params =
     \<lparr> url = server c @ ''/'' @ publicApiPath c @ ''/'' @ meth, http_method = ''GET'',
       headers = None, form = None, req_timeout = Some (timeout c), qs = Some params,
       json = Some (JObj []) \<rparr>"

text \<open>Lines 81 to 86, the \<^verbatim>\<open>then\<close> of the promise: a rejection passes through.\<close>

fun unwrap :: "outcome \<Rightarrow> outcome" where
  "unwrap (Resolved resp) =
     (if truthy (get resp ''Error'') then Rejected (GenericError (toString_js (get resp ''Error'')))
      else Resolved (get resp ''Data''))"
| "unwrap r = r"

definition publicRequest :: "env \<Rightarrow> Cryptopia \<Rightarrow> string \<Rightarrow> jsval \<Rightarrow> outcome \<times> options list" where
  "publicRequest e c meth params =
     (if \<not> isObject params then
        (Rejected (InvalidParameterError ''Cryptopia.publicRequest()'' params), [])
      else
        let opts = public_options c meth params;
            requestDesc = ''GET request to url '' @ url opts @ '' with parameters ''
                          @ format_json params;
            r = executeRequest e opts requestDesc
        in (unwrap (fst r), snd r))"

subsection \<open>Two operations\<close>

definition getCurrencies :: "env \<Rightarrow> Cryptopia \<Rightarrow> outcome \<times> options list" where
  "getCurrencies e c = publicRequest e c ''GetCurrencies/'' (JObj [])"

definition getBalance :: "env \<Rightarrow> Cryptopia \<Rightarrow> outcome \<times> options list" where
  "getBalance e c = privateRequest e c ''GetBalance'' (JObj [])"

section \<open>The signing algorithm as the specification words it\<close>

text \<open>
  The steps of the specification's request signer, on the credentials, the full target
  URL and the serialized parameters: the digest is the base64 of the MD5 hash of the
  serialization; the nonce is the whole number of seconds since the epoch; the signature
  source is key, \<^verbatim>\<open>POST\<close>, the lowercased percent-encoded URL, nonce and digest; the
  signature is the base64 of the HMAC-SHA256 of the source under the base64-decoded
  secret; the header value is \<^verbatim>\<open>amx key:signature:nonce\<close>.
\<close>

definition spec_digest :: "env \<Rightarrow> string \<Rightarrow> string" where
  "spec_digest e serialized = base64 e (md5 e serialized)"

definition spec_nonce :: "env \<Rightarrow> string" where
  "spec_nonce e = show_int (now e div 1000)"

definition spec_source :: "env \<Rightarrow> string \<Rightarrow> string \<Rightarrow> string \<Rightarrow> string" where
  "spec_source e k full_url serialized =
     k @ ''POST'' @ toLowerCase (encodeURIComponent full_url) @ spec_nonce e
       @ spec_digest e serialized"

definition spec_signature :: "env \<Rightarrow> string \<Rightarrow> string \<Rightarrow> string \<Rightarrow> string \<Rightarrow> string" where
  "spec_signature e k sec full_url serialized =
     base64 e (hmac_sha256 e (from_base64 e sec) (spec_source e k full_url serialized))"

definition spec_authorization :: "env \<Rightarrow> string \<Rightarrow> string \<Rightarrow> string \<Rightarrow> string \<Rightarrow> string" where
  "spec_authorization e k sec full_url serialized =
     ''amx '' @ k @ '':'' @ spec_signature e k sec full_url serialized @ '':'' @ spec_nonce e"

section \<open>Test doubles\<close>

text \<open>
  A \<^verbatim>\<open>JSON.parse\<close> that knows the listed values: it parses the serialization of each
  back to it and throws on every other text.
\<close>

definition parse_among :: "jsval list \<Rightarrow> string \<Rightarrow> jsval option" where
  "parse_among vs s = find (\<lambda>v. stringify v = Some s) vs"

text \<open>
  An environment for running the client on concrete inputs: a fixed clock, a transport
  that answers every request with the reply \<open>r\<close>, and hash and encoding functions that
  write out their own application.
\<close>

definition test_env :: "int \<Rightarrow> reply \<Rightarrow> jsval list \<Rightarrow> env" where
  "test_env t r vs =
     \<lparr> now = t, request = (\<lambda>opts. r), JSON_parse = parse_among vs,
       md5 = (\<lambda>s. ''md5('' @ s @ '')''),
       hmac_sha256 = (\<lambda>k m. ''hmac('' @ k @ '','' @ m @ '')''),
       base64 = (\<lambda>s. ''b64('' @ s @ '')''),
       from_base64 = (\<lambda>s. ''unb64('' @ s @ '')'') \<rparr>"

text \<open>Which error, if any, an outcome is a rejection with.\<close>

fun is_InvalidParameterError :: "outcome \<Rightarrow> bool" where
  "is_InvalidParameterError (Rejected (InvalidParameterError f p)) = True"
| "is_InvalidParameterError r = False"

fun is_HttpStatusError :: "outcome \<Rightarrow> bool" where
  "is_HttpStatusError (Rejected (HttpStatusError n d)) = True"
| "is_HttpStatusError r = False"

section \<open>Idealised hash functions\<close>

text \<open>
  The idealisation under which a signature identifies what was signed: the MD5 and
  base64 functions of the environment are injective, and the HMAC is injective in the
  message for each key and in the key for each message.
\<close>

definition collision_free :: "env \<Rightarrow> bool" where
  "collision_free e \<longleftrightarrow>
     inj (md5 e) \<and> inj (base64 e)
     \<and> (\<forall>k m m'. hmac_sha256 e k m = hmac_sha256 e k m' \<longrightarrow> m = m')
     \<and> (\<forall>k k' m. hmac_sha256 e k m = hmac_sha256 e k' m \<longrightarrow> k = k')"

section \<open>Properties\<close>

subsection \<open>Decimal strings\<close>

lemma show_nat_small: "n < 10 \<Longrightarrow> show_nat n = [digit n]"
  by (simp add: show_nat.simps)

lemma show_nat_big: "\<not> n < 10 \<Longrightarrow> show_nat n = show_nat (n div 10) @ [digit (n mod 10)]"
  by (subst show_nat.simps) simp

lemma below_ten: "(d::nat) < 10 \<Longrightarrow> d \<in> {0, 1, 2, 3, 4, 5, 6, 7, 8, 9}"
  by auto

lemma digit_code: "d < 10 \<Longrightarrow> of_char (digit d) = 48 + d"
  by (drule below_ten) (auto simp: digit_def)

lemma digit_inj:
  assumes "a < 10" and "b < 10" and "digit a = digit b"
  shows "a = b"
proof -
  have "48 + a = (of_char (digit a) :: nat)"
    using assms(1) by (simp only: digit_code)
  also have "\<dots> = of_char (digit b)"
    using assms(3) by (simp only:)
  also have "\<dots> = 48 + b"
    using assms(2) by (simp only: digit_code)
  finally show ?thesis by (simp only: add_left_cancel)
qed

lemma show_nat_not_Nil: "show_nat n \<noteq> []"
  by (subst show_nat.simps) simp

lemma show_nat_digits: "c \<in> set (show_nat n) \<Longrightarrow> \<exists>d<10. c = digit d"
proof (induction n rule: show_nat.induct)
  case (1 n)
  show ?case
  proof (cases "n < 10")
    case True
    with "1.prems" show ?thesis by (auto simp: show_nat_small)
  next
    case False
    with "1.prems" have "c \<in> set (show_nat (n div 10)) \<or> c = digit (n mod 10)"
      by (auto simp: show_nat_big)
    then show ?thesis
    proof
      assume "c \<in> set (show_nat (n div 10))"
      with False "1.IH" show ?thesis by simp
    next
      assume "c = digit (n mod 10)"
      moreover have "n mod 10 < 10" by simp
      ultimately show ?thesis by blast
    qed
  qed
qed

text \<open>Distinct numbers have distinct decimal strings.\<close>

lemma show_nat_inj: "show_nat m = show_nat n \<Longrightarrow> m = n"
proof (induction m arbitrary: n rule: show_nat.induct)
  case (1 m)
  show ?case
  proof (cases "m < 10")
    case m: True
    show ?thesis
    proof (cases "n < 10")
      case True
      with m "1.prems" show ?thesis by (simp add: show_nat_small digit_inj)
    next
      case False
      with m "1.prems" have "[digit m] = show_nat (n div 10) @ [digit (n mod 10)]"
        by (simp add: show_nat_small show_nat_big)
      then show ?thesis using show_nat_not_Nil [of "n div 10"] by simp
    qed
  next
    case m: False
    show ?thesis
    proof (cases "n < 10")
      case True
      with m "1.prems" have "show_nat (m div 10) @ [digit (m mod 10)] = [digit n]"
        by (simp add: show_nat_small show_nat_big)
      then show ?thesis using show_nat_not_Nil [of "m div 10"] by simp
    next
      case False
      with m "1.prems" have eq: "show_nat (m div 10) = show_nat (n div 10)"
        and dg: "digit (m mod 10) = digit (n mod 10)"
        by (simp_all add: show_nat_big)
      from m eq "1.IH" have "m div 10 = n div 10" by simp
      moreover from dg have "m mod 10 = n mod 10" by (intro digit_inj) simp_all
      ultimately show ?thesis by (metis div_mult_mod_eq)
    qed
  qed
qed

lemma minus_not_digit: "d < 10 \<Longrightarrow> digit d \<noteq> CHR ''-''"
  by (drule below_ten) (auto simp: digit_def)

lemma show_nat_no_minus: "show_nat n \<noteq> CHR ''-'' # s"
proof
  assume "show_nat n = CHR ''-'' # s"
  then have "CHR ''-'' \<in> set (show_nat n)" by simp
  then obtain d where "d < 10" and "CHR ''-'' = digit d"
    using show_nat_digits by blast
  then show False using minus_not_digit [of d] by simp
qed

lemma show_int_inj: "show_int i = show_int j \<Longrightarrow> i = j"
  using show_nat_no_minus [of "nat i"] show_nat_no_minus [of "nat j"]
  by (auto simp: show_int_def dest!: show_nat_inj split: if_splits) (metis show_nat_no_minus)+

lemma show_int_not_Nil: "show_int i \<noteq> []"
  by (simp add: show_int_def show_nat_not_Nil)


lemma show_int_1500000000: "show_int 1500000000 = ''1500000000''"
  by (simp add: show_int_def show_nat_small show_nat_big digit_def)

subsection \<open>Values\<close>

text \<open>The values that fail \<^verbatim>\<open>_.isObject\<close> are the primitives.\<close>

lemma not_isObject_iff:
  "\<not> isObject v \<longleftrightarrow>
   v = JUndefined \<or> v = JNull \<or> (\<exists>b. v = JBool b) \<or> (\<exists>n. v = JNum n) \<or> (\<exists>s. v = JStr s)"
  by (cases v) simp_all

text \<open>A string has no own property \<^verbatim>\<open>error_code\<close>: its own keys are numerals and \<^verbatim>\<open>length\<close>.\<close>

lemma has_string_error_code: "\<not> has (JStr s) ''error_code''"
proof -
  have "''error_code'' \<noteq> show_nat i" for i
  proof
    assume "''error_code'' = show_nat i"
    then have "CHR ''e'' \<in> set (show_nat i)" by (metis list.set_intros(1))
    then obtain d where "d < 10" and "CHR ''e'' = digit d"
      using show_nat_digits by blast
    then show False by (auto dest!: below_ten simp: digit_def)
  qed
  then show ?thesis by (auto simp: is_index_def)
qed

lemma not_isObject_no_error_code:
  assumes "\<not> isObject v"
  shows "\<not> has v ''error_code''"
proof (cases v)
  case (JStr s)
  show ?thesis unfolding JStr by (rule has_string_error_code)
qed (use assms in simp_all)

text \<open>Every object and every array has a serialization; only a function has none.\<close>

lemma stringify_defined: "isObject v \<Longrightarrow> stringify v = None \<Longrightarrow> \<exists>src. v = JFun src"
  by (cases v) simp_all

lemma stringify_not_Nil: "stringify v = Some b \<Longrightarrow> b \<noteq> []"
  by (cases v) (auto simp: show_int_not_Nil quote_def split: if_splits)

lemma format_json_Some: "stringify v = Some s \<Longrightarrow> format_json v = s"
  by (simp add: format_json_def)

lemma lower_url_GetBalance:
  "toLowerCase (encodeURIComponent ''https://www.cryptopia.co.nz/api/GetBalance'') =
   ''https%3a%2f%2fwww.cryptopia.co.nz%2fapi%2fgetbalance''"
  by (simp add: toLowerCase_def encodeURIComponent_def encode_char_def unreserved_def
      hex_upper_def lower_char_def)



subsection \<open>Construction and the test doubles\<close>

lemma new_Cryptopia_fields:
  "key (new_Cryptopia k s h t) = k"
  "secret (new_Cryptopia k s h t) = s"
  "publicApiPath (new_Cryptopia k s h t) = ''api''"
  "privateApiPath (new_Cryptopia k s h t) = ''api''"
  "server (new_Cryptopia k s None t) = ''https://www.cryptopia.co.nz''"
  "timeout (new_Cryptopia k s h None) = 20000"
  "x \<noteq> 0 \<Longrightarrow> timeout (new_Cryptopia k s h (Some x)) = x"
  by (simp_all add: new_Cryptopia_def Let_def)

lemma test_env_fields:
  "now (test_env t r vs) = t"
  "request (test_env t r vs) opts = r"
  "JSON_parse (test_env t r vs) = parse_among vs"
  by (simp_all add: test_env_def)

lemma test_env_crypto:
  "md5 (test_env t r vs) = (\<lambda>s. ''md5('' @ s @ '')'')"
  "hmac_sha256 (test_env t r vs) = (\<lambda>k m. ''hmac('' @ k @ '','' @ m @ '')'')"
  "base64 (test_env t r vs) = (\<lambda>s. ''b64('' @ s @ '')'')"
  "from_base64 (test_env t r vs) = (\<lambda>s. ''unb64('' @ s @ '')'')"
  by (simp_all add: test_env_def)

lemma parse_among_hd: "stringify v = Some s \<Longrightarrow> parse_among (v # vs) s = Some v"
  by (simp add: parse_among_def)

text \<open>The doubles for the hash functions are collision free.\<close>

lemma test_env_collision_free: "collision_free (test_env t r vs)"
  unfolding collision_free_def test_env_crypto
proof (intro conjI allI impI)
  show "inj (\<lambda>s. ''md5('' @ s @ '')'')" by (rule injI) simp
  show "inj (\<lambda>s. ''b64('' @ s @ '')'')" by (rule injI) simp
next
  fix k m m' :: string
  assume "''hmac('' @ k @ '','' @ m @ '')'' = ''hmac('' @ k @ '','' @ m' @ '')''"
  then show "m = m'" by simp
next
  fix k k' m :: string
  assume "''hmac('' @ k @ '','' @ m @ '')'' = ''hmac('' @ k' @ '','' @ m @ '')''"
  then have "k @ ('','' @ m @ '')'') = k' @ ('','' @ m @ '')'')" by simp
  then show "k = k'" by (simp only: same_append_eq append_same_eq)
qed

subsection \<open>The error-code table\<close>

lemma map_of_inj_keys:
  "inj f \<Longrightarrow> map_of (map (\<lambda>(k, m). (f k, m)) xs) (f n) = map_of xs n"
  by (induction xs) (auto dest: injD)

text \<open>Indexed by a number, the table is read at that number.\<close>

lemma error_codes_at_num: "error_codes_at (JNum n) = map_of ERROR_CODES n"
proof -
  have "inj show_int" by (rule injI) (rule show_int_inj)
  then show ?thesis by (simp add: error_codes_at_def map_of_inj_keys)
qed




subsection \<open>The executor\<close>

text \<open>Every run of the executor hands its descriptor to the transport, once.\<close>

lemma executeRequest_io: "snd (executeRequest e opts d) = [opts]"
  by (simp add: executeRequest_def split: reply.splits)

lemma executeRequest_responded:
  "request e opts = Responded sc data \<Longrightarrow>
   fst (executeRequest e opts d) = settle (error_code_check d (response_checks e opts d sc data))"
  by (simp add: executeRequest_def)


lemma executeRequest_not_invalid: "\<not> is_InvalidParameterError (fst (executeRequest e opts d))"
  by (auto simp: executeRequest_def settle_def error_code_check_def Let_def response_checks_def
      split: reply.splits option.splits)

lemma unwrap_not_invalid:
  "\<not> is_InvalidParameterError r \<Longrightarrow> \<not> is_InvalidParameterError (unwrap r)"
  by (cases r) auto



lemma public_response_checks:
  "200 \<le> sc \<Longrightarrow> sc < 300 \<Longrightarrow> isObject body \<Longrightarrow>
   response_checks e (public_options c meth params) d sc body = (None, body)"
  by (simp add: response_checks_def public_options_def)

lemma public_ok_resolves:
  "request e (public_options c meth params) = Responded sc body \<Longrightarrow>
   200 \<le> sc \<Longrightarrow> sc < 300 \<Longrightarrow> isObject body \<Longrightarrow> \<not> has body ''error_code'' \<Longrightarrow>
   fst (executeRequest e (public_options c meth params) d) = Resolved body"
  by (simp add: executeRequest_responded public_response_checks error_code_check_def Let_def
      settle_def)

text \<open>Under collision-free functions a signature determines the message and the key.\<close>

lemma hmacSignature_message:
  assumes "collision_free e" and "hmacSignature e sec m = hmacSignature e sec m'"
  shows "m = m'"
proof -
  from assms(1) have "inj (base64 e)"
    and msg: "\<And>k m m'. hmac_sha256 e k m = hmac_sha256 e k m' \<Longrightarrow> m = m'"
    unfolding collision_free_def by blast+
  from \<open>inj (base64 e)\<close> assms(2)
  have "hmac_sha256 e (from_base64 e sec) m = hmac_sha256 e (from_base64 e sec) m'"
    unfolding hmacSignature_def by (rule injD)
  then show ?thesis by (rule msg)
qed

lemma hmacSignature_key:
  assumes "collision_free e" and "hmacSignature e sec m = hmacSignature e sec' m"
  shows "from_base64 e sec = from_base64 e sec'"
proof -
  from assms(1) have "inj (base64 e)"
    and ky: "\<And>k k' m. hmac_sha256 e k m = hmac_sha256 e k' m \<Longrightarrow> k = k'"
    unfolding collision_free_def by blast+
  from \<open>inj (base64 e)\<close> assms(2)
  have "hmac_sha256 e (from_base64 e sec) m = hmac_sha256 e (from_base64 e sec') m"
    unfolding hmacSignature_def by (rule injD)
  then show ?thesis by (rule ky)
qed

lemma md5_digest_inj:
  assumes "collision_free e" and "md5_digest e b = md5_digest e b'"
  shows "b = b'"
proof -
  from assms(1) have "inj (base64 e)" and "inj (md5 e)"
    unfolding collision_free_def by blast+
  from \<open>inj (base64 e)\<close> assms(2) have "md5 e b = md5 e b'"
    unfolding md5_digest_def by (rule injD)
  with \<open>inj (md5 e)\<close> show ?thesis by (rule injD)
qed

text \<open>The code's signature is the specification's, at the URL of line 39.\<close>

lemma signature_spec:
  "private_signature e c k sec meth body = spec_signature e k sec (private_url c meth) body"
  by (simp add: private_signature_def spec_signature_def hmacSignature_def signature_def
      spec_source_def spec_nonce_def spec_digest_def md5_digest_def nonce_of_def)

section \<open>The claims\<close>

subsection \<open>Signing\<close>

text \<open>
  C1. A private call with key and secret present (non-empty) and object params, whose
  serialization is \<open>body\<close>, hands the transport one POST descriptor for the URL
  server/apiPath/method whose Authorization header is the value the specification's
  algorithm gives: \<^verbatim>\<open>amx key:signature:nonce\<close>, with the nonce the whole seconds of the
  clock, the digest the base64 of the MD5 of the serialized params, and the signature the
  base64 of the HMAC-SHA256, under the base64-decoded secret, of key, \<^verbatim>\<open>POST\<close>, the
  lowercased percent-encoded URL, nonce and digest. It holds for every clock, hash and
  encoding function.
\<close>

theorem authorization_header_follows_spec:
  assumes "key c = Some k" and "k \<noteq> []" and "secret c = Some sec" and "sec \<noteq> []"
    and "isObject params" and "stringify params = Some body"
  shows "\<exists>opts hs. snd (privateRequest e c meth params) = [opts]
           \<and> url opts = server c @ ''/'' @ privateApiPath c @ ''/'' @ meth
           \<and> http_method opts = ''POST''
           \<and> headers opts = Some hs
           \<and> map_of hs ''Authorization'' =
               Some (JStr (spec_authorization e k sec (url opts) body))"
  using assms
  by (simp add: privateRequest_def Let_def executeRequest_io private_options_def
      spec_authorization_def signature_spec private_url_def spec_nonce_def nonce_of_def)

text \<open>
  The call \<^verbatim>\<open>getBalance\<close> of a client with key \<^verbatim>\<open>k\<close> and secret \<^verbatim>\<open>s\<close>, 123
  milliseconds after second 1500000000, with the test doubles for the hash functions.
\<close>

theorem authorization_header_follows_spec_witness:
  "map (\<lambda>opts. map_of (the (headers opts)) ''Authorization'')
     (snd (privateRequest (test_env 1500000000123 NoReply [])
        (new_Cryptopia (Some ''k'') (Some ''s'') None None) ''GetBalance'' (JObj []))) =
   [Some (JStr ''amx k:b64(hmac(unb64(s),kPOSThttps%3a%2f%2fwww.cryptopia.co.nz%2fapi%2fgetbalance1500000000b64(md5({})))):1500000000'')]"
  using authorization_header_follows_spec
          [of "new_Cryptopia (Some ''k'') (Some ''s'') None None" "''k''" "''s''" "JObj []" "''{}''"
              "test_env 1500000000123 NoReply []" "''GetBalance''"]
  by (auto simp: new_Cryptopia_fields spec_authorization_def spec_signature_def spec_source_def
      spec_nonce_def spec_digest_def test_env_def show_int_1500000000 lower_url_GetBalance)

subsection \<open>Credentials and parameters\<close>

text \<open>
  C2. A private call whose key or secret is missing (or empty) is rejected with the
  missing-credentials error and hands nothing to the transport. The result is the same
  for every params argument, valid or not, and for every environment: the check comes
  before the validation of params, before any signing and before any network I/O.
\<close>

theorem missing_credentials_rejected:
  "falsy_str (key c) \<or> falsy_str (secret c) \<Longrightarrow>
   privateRequest e c meth params =
     (Rejected (MissingCredentialsError ''Cryptopia.privateRequest()''), [])"
  by (simp add: privateRequest_def)

theorem missing_credentials_rejected_witness:
  "privateRequest (test_env 1500000000123 (Responded 200 (JStr ''{}'')) [JObj []])
     (new_Cryptopia (Some ''k'') None None None) ''GetBalance'' (JStr ''oops'') =
     (Rejected (MissingCredentialsError ''Cryptopia.privateRequest()''), [])
   \<and> privateRequest (test_env 1500000000123 (Responded 200 (JStr ''{}'')) [JObj []])
     (new_Cryptopia (Some []) (Some ''s'') None None) ''GetBalance'' (JObj []) =
     (Rejected (MissingCredentialsError ''Cryptopia.privateRequest()''), [])"
  using missing_credentials_rejected
          [of "new_Cryptopia (Some ''k'') None None None"
              "test_env 1500000000123 (Responded 200 (JStr ''{}'')) [JObj []]"
              "''GetBalance''" "JStr ''oops''"]
        missing_credentials_rejected
          [of "new_Cryptopia (Some []) (Some ''s'') None None"
              "test_env 1500000000123 (Responded 200 (JStr ''{}'')) [JObj []]"
              "''GetBalance''" "JObj []"]
  by (simp add: new_Cryptopia_fields)

text \<open>
  C3, as amended. A params argument that fails \<^verbatim>\<open>_.isObject\<close> (\<^verbatim>\<open>undefined\<close>,
  \<^verbatim>\<open>null\<close>, a boolean, a number or a string) makes every public call, and every private
  call whose key and secret are present, reject with the invalid-parameter error; nothing
  is handed to the transport, and the result does not depend on the environment, so
  nothing was signed.
\<close>

theorem non_object_params_rejected:
  "\<not> isObject params \<Longrightarrow>
   publicRequest e c meth params =
     (Rejected (InvalidParameterError ''Cryptopia.publicRequest()'' params), [])
   \<and> (\<not> falsy_str (key c) \<and> \<not> falsy_str (secret c) \<longrightarrow>
        privateRequest e c meth params =
          (Rejected (InvalidParameterError ''Cryptopia.privateRequest()'' params), []))"
  by (simp add: publicRequest_def privateRequest_def)

theorem non_object_params_rejected_witness:
  "publicRequest (test_env 1500000000123 (Responded 200 (JObj [])) [])
     (new_Cryptopia None None None None) ''GetCurrencies/'' JNull =
     (Rejected (InvalidParameterError ''Cryptopia.publicRequest()'' JNull), [])
   \<and> privateRequest (test_env 1500000000123 (Responded 200 (JObj [])) [])
     (new_Cryptopia (Some ''k'') (Some ''s'') None None) ''GetBalance'' (JStr ''symbol'') =
     (Rejected (InvalidParameterError ''Cryptopia.privateRequest()'' (JStr ''symbol'')), [])"
  using non_object_params_rejected
          [of JNull "test_env 1500000000123 (Responded 200 (JObj [])) []"
              "new_Cryptopia None None None None" "''GetCurrencies/''"]
        non_object_params_rejected
          [of "JStr ''symbol''" "test_env 1500000000123 (Responded 200 (JObj [])) []"
              "new_Cryptopia (Some ''k'') (Some ''s'') None None" "''GetBalance''"]
  by (simp add: new_Cryptopia_fields)

text \<open>
  The claim as first stated fails twice. A private call of a client without credentials
  with the params \<^verbatim>\<open>null\<close> is rejected with the missing-credentials error, not the
  invalid-parameter error. And a public call with an array for params, which is not a
  key-value object, is not rejected: the array goes to the transport as the query and the
  call resolves.
\<close>

theorem non_object_params_counterexample:
  "fst (privateRequest (test_env 1500000000123 (Responded 200 (JObj [])) [])
          (new_Cryptopia None None None None) ''GetBalance'' JNull) =
     Rejected (MissingCredentialsError ''Cryptopia.privateRequest()'')
   \<and> \<not> is_InvalidParameterError
        (fst (privateRequest (test_env 1500000000123 (Responded 200 (JObj [])) [])
               (new_Cryptopia None None None None) ''GetBalance'' JNull))
   \<and> publicRequest (test_env 1500000000123 (Responded 200 (JObj [(''Data'', JNum 7)])) [])
        (new_Cryptopia None None None None) ''GetCurrencies/'' (JArr [JNum 1]) =
      (Resolved (JNum 7),
       [\<lparr> url = ''https://www.cryptopia.co.nz/api/GetCurrencies/'', http_method = ''GET'',
           headers = None, form = None, req_timeout = Some 20000, qs = Some (JArr [JNum 1]),
           json = Some (JObj []) \<rparr>])"
  by (simp add: privateRequest_def publicRequest_def new_Cryptopia_fields test_env_def
      public_options_def executeRequest_def response_checks_def error_code_check_def
      settle_def Let_def)

subsection \<open>The timeout\<close>

text \<open>
  C4. The descriptor of a private call sets no timeout: a client built with a timeout of
  5000 ms hands the transport, for \<^verbatim>\<open>getBalance\<close>, a descriptor without one, while for
  the public \<^verbatim>\<open>getCurrencies\<close> the descriptor carries the 5000 ms.
\<close>

theorem private_descriptor_has_no_timeout:
  "map req_timeout
     (snd (getBalance (test_env 1500000000123 NoReply [])
        (new_Cryptopia (Some ''k'') (Some ''s'') None (Some 5000)))) = [None]
   \<and> map req_timeout
     (snd (getCurrencies (test_env 1500000000123 NoReply [])
        (new_Cryptopia (Some ''k'') (Some ''s'') None (Some 5000)))) = [Some 5000]"
  by (simp add: getBalance_def getCurrencies_def privateRequest_def publicRequest_def Let_def
      executeRequest_io new_Cryptopia_fields private_options_def public_options_def)

text \<open>
  The public half of the claim holds: every public call that passes validation hands the
  transport one descriptor with the client's timeout, which is 20000 ms when none was
  given at construction.
\<close>

theorem public_descriptor_carries_timeout:
  "isObject params \<Longrightarrow>
   map req_timeout (snd (publicRequest e c meth params)) = [Some (timeout c)]
   \<and> timeout (new_Cryptopia k s h None) = 20000"
  by (simp add: publicRequest_def Let_def executeRequest_io public_options_def
      new_Cryptopia_fields)

theorem public_descriptor_carries_timeout_witness:
  "map req_timeout (snd (getCurrencies (test_env 1500000000123 NoReply [])
      (new_Cryptopia None None None None))) = [Some 20000]"
  using public_descriptor_carries_timeout
          [of "JObj []" "test_env 1500000000123 NoReply []" "new_Cryptopia None None None None"
              "''GetCurrencies/''" None None None]
  by (simp add: getCurrencies_def new_Cryptopia_fields)

subsection \<open>Errors reported by the exchange\<close>



subsection \<open>The envelope of a public response\<close>

text \<open>
  C6, as amended. When the executor resolves a public call (a 2xx response whose body is
  an object without an \<^verbatim>\<open>error_code\<close> of its own), the call is rejected with a generic
  error if the body's \<^verbatim>\<open>Error\<close> field is truthy, the message being that value as a
  string (itself, when it is a non-empty string); otherwise (the field is missing,
  \<^verbatim>\<open>null\<close>, \<^verbatim>\<open>false\<close>, zero or the empty string) the call resolves with exactly the
  body's \<^verbatim>\<open>Data\<close> field.
\<close>

theorem public_envelope_unwrapped:
  "isObject params \<Longrightarrow> request e (public_options c meth params) = Responded sc body \<Longrightarrow>
   200 \<le> sc \<Longrightarrow> sc < 300 \<Longrightarrow> isObject body \<Longrightarrow> \<not> has body ''error_code'' \<Longrightarrow>
   fst (publicRequest e c meth params) =
     (if truthy (get body ''Error'')
      then Rejected (GenericError (toString_js (get body ''Error'')))
      else Resolved (get body ''Data''))
   \<and> (\<forall>s. get body ''Error'' = JStr s \<and> s \<noteq> [] \<longrightarrow>
         fst (publicRequest e c meth params) = Rejected (GenericError s))
   \<and> (get body ''Error'' = JNull \<or> get body ''Error'' = JUndefined \<longrightarrow>
         fst (publicRequest e c meth params) = Resolved (get body ''Data''))"
  by (simp add: publicRequest_def Let_def public_ok_resolves)

text \<open>The two bodies of the specification's tests.\<close>

theorem public_envelope_unwrapped_witness:
  "fst (getCurrencies
     (test_env 1500000000123
        (Responded 200 (JObj [(''Error'', JNull), (''Data'', JObj [(''foo'', JNum 1)])])) [])
     (new_Cryptopia None None None None)) = Resolved (JObj [(''foo'', JNum 1)])
   \<and> fst (getCurrencies
     (test_env 1500000000123
        (Responded 200 (JObj [(''Error'', JStr ''bad thing''), (''Data'', JNull)])) [])
     (new_Cryptopia None None None None)) = Rejected (GenericError ''bad thing'')"
  using public_envelope_unwrapped
      [where e = "test_env 1500000000123
          (Responded 200 (JObj [(''Error'', JNull), (''Data'', JObj [(''foo'', JNum 1)])])) []"
        and c = "new_Cryptopia None None None None" and meth = "''GetCurrencies/''"
        and params = "JObj []" and sc = 200
        and body = "JObj [(''Error'', JNull), (''Data'', JObj [(''foo'', JNum 1)])]"]
    public_envelope_unwrapped
      [where e = "test_env 1500000000123
          (Responded 200 (JObj [(''Error'', JStr ''bad thing''), (''Data'', JNull)])) []"
        and c = "new_Cryptopia None None None None" and meth = "''GetCurrencies/''"
        and params = "JObj []" and sc = 200
        and body = "JObj [(''Error'', JStr ''bad thing''), (''Data'', JNull)]"]
  by (simp add: test_env_fields getCurrencies_def)

text \<open>
  The claim as first stated fails on a body that carries an \<^verbatim>\<open>Error\<close> field holding
  the empty string: the call is not rejected, it resolves with the \<^verbatim>\<open>Data\<close> field.
\<close>

theorem public_envelope_counterexample:
  "has (JObj [(''Error'', JStr []), (''Data'', JNum 1)]) ''Error''
   \<and> fst (getCurrencies
     (test_env 1500000000123
        (Responded 200 (JObj [(''Error'', JStr []), (''Data'', JNum 1)])) [])
     (new_Cryptopia None None None None)) = Resolved (JNum 1)"
  by (simp add: getCurrencies_def publicRequest_def Let_def executeRequest_def test_env_fields
      response_checks_def error_code_check_def settle_def public_options_def)

subsection \<open>HTTP status and error code\<close>

text \<open>
  C7, as amended. When the response's status lies outside [200, 300) and the body the
  transport delivered has no \<^verbatim>\<open>error_code\<close> of its own, the call is rejected with the
  HTTP-status error carrying that status and the description of the attempted call.
\<close>

theorem status_error_without_error_code:
  "request e opts = Responded sc data \<Longrightarrow> sc < 200 \<or> 300 \<le> sc \<Longrightarrow>
   \<not> has data ''error_code'' \<Longrightarrow>
   executeRequest e opts d = (Rejected (HttpStatusError sc d), [opts])"
  by (auto simp: executeRequest_def response_checks_def error_code_check_def settle_def Let_def)

text \<open>A status 503 with a text body, on the descriptor of a private call.\<close>

theorem status_error_without_error_code_witness:
  "executeRequest
     (test_env 1500000000123 (Responded 503 (JStr ''Service Unavailable'')) [])
     (private_options (test_env 1500000000123 (Responded 503 (JStr ''Service Unavailable'')) [])
        (new_Cryptopia (Some ''k'') (Some ''s'') None None) ''k'' ''s'' ''GetBalance'' ''{}'')
     ''POST request'' =
   (Rejected (HttpStatusError 503 ''POST request''),
    [private_options (test_env 1500000000123 (Responded 503 (JStr ''Service Unavailable'')) [])
        (new_Cryptopia (Some ''k'') (Some ''s'') None None) ''k'' ''s'' ''GetBalance'' ''{}''])"
  using status_error_without_error_code
      [where e = "test_env 1500000000123 (Responded 503 (JStr ''Service Unavailable'')) []"
        and sc = 503 and data = "JStr ''Service Unavailable''" and d = "''POST request''"
        and opts = "private_options
          (test_env 1500000000123 (Responded 503 (JStr ''Service Unavailable'')) [])
          (new_Cryptopia (Some ''k'') (Some ''s'') None None) ''k'' ''s'' ''GetBalance'' ''{}''",
        OF _ _ has_string_error_code]
  by (simp add: test_env_fields)

text \<open>
  The claim as first stated fails on a public call answered with status 503 and the
  decoded body \<^verbatim>\<open>{error_code: 10001}\<close>: the call is rejected with the remote-API
  error of code 10001, not with the HTTP-status error.
\<close>

theorem status_error_counterexample:
  "fst (getCurrencies
     (test_env 1500000000123 (Responded 503 (JObj [(''error_code'', JNum 10001)])) [])
     (new_Cryptopia None None None None)) =
   Rejected (RemoteApiError (JNum 10001) ''Requests are too frequent''
     ''GET request to url https://www.cryptopia.co.nz/api/GetCurrencies/ with parameters {}'')
   \<and> \<not> is_HttpStatusError (fst (getCurrencies
     (test_env 1500000000123 (Responded 503 (JObj [(''error_code'', JNum 10001)])) [])
     (new_Cryptopia None None None None)))"
  by (simp add: getCurrencies_def publicRequest_def Let_def executeRequest_def test_env_fields
      response_checks_def error_code_check_def settle_def public_options_def
      new_Cryptopia_fields format_json_def mapErrorMessage_def error_codes_at_num ERROR_CODES_def)

subsection \<open>Determinism of signing\<close>




subsection \<open>The error code overrides\<close>



subsection \<open>Arrays as parameters\<close>

text \<open>
  C10. Arrays and functions pass \<^verbatim>\<open>_.isObject\<close>. A public call with an array for
  params is not rejected with the invalid-parameter error and hands the transport its
  descriptor, the array as the query; a private call with an array, key and secret
  present, is not rejected with it either, and hands the transport the signed descriptor
  for the serialized array.
\<close>

theorem arrays_pass_validation:
  "isObject (JArr xs) \<and> isObject (JFun src)
   \<and> \<not> is_InvalidParameterError (fst (publicRequest e c meth (JArr xs)))
   \<and> snd (publicRequest e c meth (JArr xs)) = [public_options c meth (JArr xs)]
   \<and> (\<not> falsy_str (key c) \<and> \<not> falsy_str (secret c) \<longrightarrow>
        \<not> is_InvalidParameterError (fst (privateRequest e c meth (JArr xs)))
        \<and> (\<exists>body. stringify (JArr xs) = Some body
             \<and> snd (privateRequest e c meth (JArr xs)) =
                 [private_options e c (the (key c)) (the (secret c)) meth body]))"
  by (simp add: publicRequest_def privateRequest_def Let_def executeRequest_io
      executeRequest_not_invalid unwrap_not_invalid)

text \<open>A private call with the array \<^verbatim>\<open>[1]\<close>, which the transport never answers.\<close>

theorem arrays_pass_validation_witness:
  "privateRequest (test_env 1500000000123 NoReply [])
     (new_Cryptopia (Some ''k'') (Some ''s'') None None) ''GetBalance'' (JArr [JNum 1]) =
   (Pending,
    [private_options (test_env 1500000000123 NoReply [])
       (new_Cryptopia (Some ''k'') (Some ''s'') None None) ''k'' ''s'' ''GetBalance'' ''[1]''])"
  using arrays_pass_validation
      [where e = "test_env 1500000000123 NoReply []"
        and c = "new_Cryptopia (Some ''k'') (Some ''s'') None None"
        and meth = "''GetBalance''" and xs = "[JNum 1]"]
  by (simp add: new_Cryptopia_fields privateRequest_def Let_def executeRequest_def
      test_env_fields show_int_def show_nat_small digit_def)

section \<open>Further properties\<close>

subsection \<open>What changes a signature\<close>

text \<open>
  Under collision-free hash and encoding functions, changing one input of the signing
  and keeping the others changes the signature, when the input is the key, the secret
  (if its base64 decoding changes), the serialized params, or the URL (if its lowercased
  percent-encoding changes).
\<close>

theorem signature_changes_with_one_input:
  assumes "collision_free e"
  shows "(k \<noteq> k' \<longrightarrow>
            private_signature e c k sec meth body \<noteq> private_signature e c k' sec meth body)
         \<and> (from_base64 e sec \<noteq> from_base64 e sec' \<longrightarrow>
            private_signature e c k sec meth body \<noteq> private_signature e c k sec' meth body)
         \<and> (body \<noteq> body' \<longrightarrow>
            private_signature e c k sec meth body \<noteq> private_signature e c k sec meth body')
         \<and> (toLowerCase (encodeURIComponent (private_url c meth)) \<noteq>
              toLowerCase (encodeURIComponent (private_url c' meth')) \<longrightarrow>
            private_signature e c k sec meth body \<noteq> private_signature e c' k sec meth' body)"
proof (intro conjI impI)
  assume ne: "k \<noteq> k'"
  show "private_signature e c k sec meth body \<noteq> private_signature e c k' sec meth body"
  proof
    assume "private_signature e c k sec meth body = private_signature e c k' sec meth body"
    then have "signature k (private_url c meth) (nonce_of e) (md5_digest e body) =
               signature k' (private_url c meth) (nonce_of e) (md5_digest e body)"
      unfolding private_signature_def by (rule hmacSignature_message [OF assms])
    then have "k = k'" by (simp add: signature_def)
    with ne show False by simp
  qed
next
  assume ne: "from_base64 e sec \<noteq> from_base64 e sec'"
  show "private_signature e c k sec meth body \<noteq> private_signature e c k sec' meth body"
  proof
    assume "private_signature e c k sec meth body = private_signature e c k sec' meth body"
    then have "from_base64 e sec = from_base64 e sec'"
      unfolding private_signature_def by (rule hmacSignature_key [OF assms])
    with ne show False by simp
  qed
next
  assume ne: "body \<noteq> body'"
  show "private_signature e c k sec meth body \<noteq> private_signature e c k sec meth body'"
  proof
    assume "private_signature e c k sec meth body = private_signature e c k sec meth body'"
    then have "signature k (private_url c meth) (nonce_of e) (md5_digest e body) =
               signature k (private_url c meth) (nonce_of e) (md5_digest e body')"
      unfolding private_signature_def by (rule hmacSignature_message [OF assms])
    then have "md5_digest e body = md5_digest e body'" by (simp add: signature_def)
    then have "body = body'" by (rule md5_digest_inj [OF assms])
    with ne show False by simp
  qed
next
  assume ne: "toLowerCase (encodeURIComponent (private_url c meth)) \<noteq>
          toLowerCase (encodeURIComponent (private_url c' meth'))"
  show "private_signature e c k sec meth body \<noteq> private_signature e c' k sec meth' body"
  proof
    assume "private_signature e c k sec meth body = private_signature e c' k sec meth' body"
    then have "signature k (private_url c meth) (nonce_of e) (md5_digest e body) =
               signature k (private_url c' meth') (nonce_of e) (md5_digest e body)"
      unfolding private_signature_def by (rule hmacSignature_message [OF assms])
    then have "toLowerCase (encodeURIComponent (private_url c meth)) =
               toLowerCase (encodeURIComponent (private_url c' meth'))"
      by (simp add: signature_def)
    with ne show False by simp
  qed
qed

theorem signature_changes_with_one_input_witness:
  "private_signature (test_env 1500000000123 NoReply [])
     (new_Cryptopia (Some ''k'') (Some ''s'') None None) ''k'' ''s'' ''GetBalance'' ''{}'' \<noteq>
   private_signature (test_env 1500000000123 NoReply [])
     (new_Cryptopia (Some ''k'') (Some ''s'') None None) ''K'' ''s'' ''GetBalance'' ''{}''"
  using signature_changes_with_one_input
      [OF test_env_collision_free, where k = "''k''" and k' = "''K''", THEN conjunct1]
  by simp

subsection \<open>The other outcomes of the executor\<close>

text \<open>
  When the transport fails, the call is rejected with the transport error, which carries
  the transport's error and the description of the attempted call.
\<close>

theorem transport_failure_rejected:
  "request e opts = Failed err \<Longrightarrow>
   executeRequest e opts d = (Rejected (TransportError err d), [opts])"
  by (simp add: executeRequest_def error_code_check_def settle_def Let_def)

theorem transport_failure_rejected_witness:
  "fst (getCurrencies (test_env 1500000000123 (Failed (JObj [(''code'', JStr ''ETIMEDOUT'')])) [])
      (new_Cryptopia None None None None)) =
   Rejected (TransportError (JObj [(''code'', JStr ''ETIMEDOUT'')])
     ''GET request to url https://www.cryptopia.co.nz/api/GetCurrencies/ with parameters {}'')"
  using transport_failure_rejected
      [where e = "test_env 1500000000123 (Failed (JObj [(''code'', JStr ''ETIMEDOUT'')])) []"
        and err = "JObj [(''code'', JStr ''ETIMEDOUT'')]"
        and opts = "public_options (new_Cryptopia None None None None) ''GetCurrencies/'' (JObj [])"
        and d = "''GET request to url https://www.cryptopia.co.nz/api/GetCurrencies/ with parameters {}''"]
  by (simp add: getCurrencies_def publicRequest_def Let_def test_env_fields public_options_def
      new_Cryptopia_fields format_json_def)

text \<open>
  A private call answered with a 2xx status and a text body: when the text does not
  parse, the call is rejected with the decode error carrying the text; when it parses to a
  body with an \<^verbatim>\<open>error_code\<close>, with the remote-API error; otherwise the call resolves
  with the parsed body.
\<close>

theorem private_response_decoded:
  assumes "key c = Some k" and "k \<noteq> []" and "secret c = Some sec" and "sec \<noteq> []"
    and "isObject params" and "stringify params = Some b"
    and "request e (private_options e c k sec meth b) = Responded sc (JStr raw)"
    and "200 \<le> sc" and "sc < 300"
  shows "fst (privateRequest e c meth params) =
           (case JSON_parse e raw of
              None \<Rightarrow> Rejected (ResponseDecodeError (JStr raw))
            | Some body \<Rightarrow>
                if has body ''error_code''
                then Rejected (RemoteApiError (get body ''error_code'')
                       (mapErrorMessage (get body ''error_code''))
                       (''POST request to url '' @ private_url c meth @ '' with method '' @ meth
                        @ '' and params '' @ b))
                else Resolved body)"
proof -
  from assms(6) have "b \<noteq> []" by (rule stringify_not_Nil)
  then have form: "form (private_options e c k sec meth b) = Some b"
    and u: "url (private_options e c k sec meth b) = private_url c meth"
    by (simp_all add: private_options_def)
  have str: "\<not> has (JStr raw) ''error_code''" by (rule has_string_error_code)
  show ?thesis
    using assms \<open>b \<noteq> []\<close> str
    by (simp add: privateRequest_def Let_def executeRequest_def response_checks_def form u
        error_code_check_def settle_def split: option.splits)
qed

theorem private_response_decoded_witness:
  "fst (getBalance (test_env 1500000000123 (Responded 200 (JStr ''<html>'')) [])
      (new_Cryptopia (Some ''k'') (Some ''s'') None None)) =
   Rejected (ResponseDecodeError (JStr ''<html>''))
   \<and> fst (getBalance
      (test_env 1500000000123
         (Responded 200 (JStr (format_json (JObj [(''Success'', JBool True)]))))
         [JObj [(''Success'', JBool True)]])
      (new_Cryptopia (Some ''k'') (Some ''s'') None None)) =
   Resolved (JObj [(''Success'', JBool True)])"
proof -
  let ?c = "new_Cryptopia (Some ''k'') (Some ''s'') None None"
  let ?body = "JObj [(''Success'', JBool True)]"
  let ?e1 = "test_env 1500000000123 (Responded 200 (JStr ''<html>'')) []"
  let ?e2 = "test_env 1500000000123 (Responded 200 (JStr (format_json ?body))) [?body]"
  have p1: "parse_among [] ''<html>'' = None"
    by (simp add: parse_among_def)
  have p2: "parse_among [?body] (format_json ?body) = Some ?body"
    by (simp add: parse_among_hd format_json_Some)
  have "fst (privateRequest ?e1 ?c ''GetBalance'' (JObj [])) =
        Rejected (ResponseDecodeError (JStr ''<html>''))"
    using private_response_decoded
        [where e = ?e1 and c = ?c and k = "''k''" and sec = "''s''" and params = "JObj []"
          and b = "''{}''" and meth = "''GetBalance''" and sc = 200 and raw = "''<html>''"]
    by (simp add: new_Cryptopia_fields test_env_fields p1)
  moreover have "fst (privateRequest ?e2 ?c ''GetBalance'' (JObj [])) = Resolved ?body"
    using private_response_decoded
        [where e = ?e2 and c = ?c and k = "''k''" and sec = "''s''" and params = "JObj []"
          and b = "''{}''" and meth = "''GetBalance''" and sc = 200
          and raw = "format_json ?body"]
    by (simp add: new_Cryptopia_fields test_env_fields p2)
  ultimately show ?thesis by (simp add: getBalance_def)
qed

text \<open>
  A public call answered with a 2xx status and a body that is not an object (text that
  the transport could not decode, say) is rejected with the error of line 255, which
  carries the description of the call and the body.
\<close>

theorem public_non_object_body_rejected:
  assumes "isObject params"
    and "request e (public_options c meth params) = Responded sc data"
    and "200 \<le> sc" and "sc < 300" and "\<not> isObject data"
  shows "fst (publicRequest e c meth params) =
           Rejected (ResponseNotObjectError
             (''GET request to url '' @ server c @ ''/'' @ publicApiPath c @ ''/'' @ meth
              @ '' with parameters '' @ format_json params) data)"
proof -
  from assms(5) have "\<not> has data ''error_code''" by (rule not_isObject_no_error_code)
  with assms show ?thesis
    by (simp add: publicRequest_def Let_def executeRequest_def response_checks_def
        public_options_def error_code_check_def settle_def)
qed

theorem public_non_object_body_rejected_witness:
  "fst (getCurrencies (test_env 1500000000123 (Responded 200 (JStr ''<html>'')) [])
      (new_Cryptopia None None None None)) =
   Rejected (ResponseNotObjectError
     ''GET request to url https://www.cryptopia.co.nz/api/GetCurrencies/ with parameters {}''
     (JStr ''<html>''))"
  using public_non_object_body_rejected
      [where e = "test_env 1500000000123 (Responded 200 (JStr ''<html>'')) []"
        and c = "new_Cryptopia None None None None" and meth = "''GetCurrencies/''"
        and params = "JObj []" and sc = 200 and data = "JStr ''<html>''"]
  by (simp add: getCurrencies_def test_env_fields new_Cryptopia_fields format_json_def)

end
